theory Spec2Isabelle
  imports Main "HOL-Library.Word" "HOL-Library.Sublist"
begin

section \<open>JavaScript strings\<close>

text \<open>
  A JavaScript string is a sequence of UTF-16 code units. Literals of the source are
  written \<open>js ''...''\<close>.
\<close>

type_synonym code_unit = "16 word"
type_synonym js_string = "code_unit list"

definition js :: "string \<Rightarrow> js_string" where
  "js s = map of_char s"

text \<open>
  The code units that \<^verbatim>\<open>\s\<close>, \<^verbatim>\<open>String.prototype.trim\<close> and \<^verbatim>\<open>parseInt\<close>
  treat as white space (ECMAScript WhiteSpace and LineTerminator).
\<close>

definition isWhiteSpace :: "code_unit \<Rightarrow> bool" where
  "isWhiteSpace c \<longleftrightarrow>
     c = 0x09 \<or> c = 0x0A \<or> c = 0x0B \<or> c = 0x0C \<or> c = 0x0D \<or> c = 0x20 \<or> c = 0xA0 \<or>
     c = 0x1680 \<or> (0x2000 \<le> c \<and> c \<le> 0x200A) \<or> c = 0x2028 \<or> c = 0x2029 \<or>
     c = 0x202F \<or> c = 0x205F \<or> c = 0x3000 \<or> c = 0xFEFF"

text \<open>\<^verbatim>\<open>s.trim()\<close>\<close>

definition js_trim :: "js_string \<Rightarrow> js_string" where
  "js_trim s = rev (dropWhile isWhiteSpace (rev (dropWhile isWhiteSpace s)))"

text \<open>
  \<^verbatim>\<open>s.split(/\s+/)\<close>: the pieces between maximal runs of white space. A run at the
  start or at the end of \<open>s\<close> leaves an empty piece there, and the empty string splits
  into one empty piece. \<open>js_split_from piece rest\<close> carries the piece being read, reversed.
\<close>

function js_split_from :: "js_string \<Rightarrow> js_string \<Rightarrow> js_string list" where
  "js_split_from piece [] = [rev piece]"
| "js_split_from piece (c # cs) =
     (if isWhiteSpace c then rev piece # js_split_from [] (dropWhile isWhiteSpace cs)
      else js_split_from (c # piece) cs)"
  by pat_completeness auto
termination
  by (relation "measure (\<lambda>(piece, s). length s)")
     (auto simp: length_dropWhile_le less_Suc_eq_le)

definition js_split_ws :: "js_string \<Rightarrow> js_string list" where
  "js_split_ws s = js_split_from [] s"


text \<open>\<^verbatim>\<open>text.includes(s)\<close>: \<open>s\<close> occurs in \<open>text\<close> at some position, code unit by code unit.\<close>

fun js_includes :: "js_string \<Rightarrow> js_string \<Rightarrow> bool" where
  "js_includes [] s = (s = [])"
| "js_includes (c # cs) s = (prefix s (c # cs) \<or> js_includes cs s)"

text \<open>\<^verbatim>\<open>s.startsWith(p)\<close>\<close>

definition js_startsWith :: "js_string \<Rightarrow> js_string \<Rightarrow> bool" where
  "js_startsWith s p = prefix p s"

text \<open>
  \<^verbatim>\<open>parseInt(s, 10)\<close>: leading white space is skipped, one sign is read, then the
  longest run of decimal digits; \<open>None\<close> is \<^verbatim>\<open>NaN\<close> (no digit there). What follows the
  digits is ignored. The value is the exact integer: the Number that the engine returns
  differs from it only above \<open>2^53\<close>, beyond the length of any array.
\<close>

definition isDigit :: "code_unit \<Rightarrow> bool" where
  "isDigit c \<longleftrightarrow> 0x30 \<le> c \<and> c \<le> 0x39"

definition digitsValue :: "js_string \<Rightarrow> int" where
  "digitsValue ds = foldl (\<lambda>n c. 10 * n + (uint c - 0x30)) 0 ds"

definition parseInt :: "js_string \<Rightarrow> int option" where
  "parseInt s =
     (let t = dropWhile isWhiteSpace s;
          negative = (case t of [] \<Rightarrow> False | c # _ \<Rightarrow> c = 0x2D);
          u = (case t of [] \<Rightarrow> [] | c # cs \<Rightarrow> if c = 0x2B \<or> c = 0x2D then cs else t);
          z = takeWhile isDigit u
      in if z = [] then None
         else Some (if negative then - digitsValue z else digitsValue z))"

text \<open>The decimal numeral of a number, as a template literal prints it.\<close>

fun showNat :: "nat \<Rightarrow> js_string" where
  "showNat n = (if n < 10 then [0x30 + of_nat n] else showNat (n div 10) @ [0x30 + of_nat (n mod 10)])"

section \<open>Data model (types.ts, groqClient.ts)\<close>

record Revision =
  id_rev :: js_string
  modifiedTime :: js_string
  mimeType :: js_string

record VersionLogEntry =
  revisionId :: js_string
  timestamp :: js_string
  jobTitle :: "js_string option"
  company :: "js_string option"
  jobUrl :: "js_string option"
  changes :: "js_string list"
  isRevert :: bool

record ReplacementItem =
  original :: js_string
  replacement :: js_string

text \<open>An element of the generation service's answer: a replacement with its optional rationale.\<close>

record Suggestion = ReplacementItem +
  jd_alignment :: "js_string option"

record AlignmentResponse =
  replacements :: "Suggestion list"
  summary :: "js_string list"

record ResumeUpdateResult =
  replacements_res :: "ReplacementItem list"
  changes_res :: "js_string list"

text \<open>
  Thrown values. An axios error carries the response when the server answered with an
  error status: the status and \<^verbatim>\<open>data?.error?.message\<close>.
\<close>

datatype js_error =
    Error js_string
  | TypeError js_string
  | AxiosError js_string "(nat \<times> js_string option) option"

fun message :: "js_error \<Rightarrow> js_string" where
  "message (Error m) = m"
| "message (TypeError m) = m"
| "message (AxiosError m r) = m"

fun axiosResponse :: "js_error \<Rightarrow> (nat \<times> js_string option) option" where
  "axiosResponse (AxiosError m r) = r"
| "axiosResponse e = None"

section \<open>ReplacementValidator (groqClient.ts, getResumeReplacements)\<close>

text \<open>
  The callback of \<^verbatim>\<open>suggestions.replacements.filter\<close>. The largest word-count
  difference it lets through is the literal 5 of groqClient.ts; the copy of the file in
  unnamed/part_001 has 8 in the same place, so the bound is an argument here.
\<close>

definition passesFilters :: "nat \<Rightarrow> js_string \<Rightarrow> 'a ReplacementItem_scheme \<Rightarrow> bool" where
  "passesFilters maxDelta resumeText r =
     (if \<not> js_includes resumeText (original r) then False
      else if js_trim (original r) = js_trim (replacement r) then False
      else let origWords = length (js_split_ws (original r));
               replWords = length (js_split_ws (replacement r))
           in if abs (int origWords - int replWords) > int maxDelta then False else True)"

definition validReplacements :: "nat \<Rightarrow> js_string \<Rightarrow> 'a ReplacementItem_scheme list \<Rightarrow> 'a ReplacementItem_scheme list" where
  "validReplacements maxDelta resumeText rs = filter (passesFilters maxDelta resumeText) rs"

definition maxWordDelta :: nat where
  "maxWordDelta = 5"


section \<open>VersionLog store (main.ts)\<close>

text \<open>
  The file resume_versions.json, up to the round trip of \<^verbatim>\<open>JSON.stringify\<close> and
  \<^verbatim>\<open>JSON.parse\<close>: \<open>Holds entries\<close> is a text that \<^verbatim>\<open>JSON.parse\<close> reads as the array
  \<open>entries\<close> (the program writes \<^verbatim>\<open>JSON.stringify(entries, null, 2) + '\n'\<close>, and the same
  text without the final newline reads the same), \<open>Unreadable\<close> is any content that
  \<^verbatim>\<open>JSON.parse\<close> rejects (the empty file and every text that stops inside the array are
  such), \<open>Absent\<close> is no file. The program writes nothing but arrays of entries to this
  file.
\<close>

datatype log_file = Absent | Unreadable | Holds "VersionLogEntry list"

definition readVersionLog :: "log_file \<Rightarrow> VersionLogEntry list" where
  "readVersionLog f = (case f of Absent \<Rightarrow> [] | Unreadable \<Rightarrow> [] | Holds entries \<Rightarrow> entries)"

text \<open>
  \<^verbatim>\<open>writeFileSync(path, data)\<close> opens \<open>path\<close> itself with flag \<^verbatim>\<open>'w'\<close>, which creates
  or truncates it, then writes \<open>data\<close> and closes the file. It can throw at the open, with
  the file as it was, or after the truncation (disk full, I/O error), with the file
  holding what was written until then: a text cut inside the array, or the whole array
  (the final newline is missing, or the failure came after the last write).
\<close>

datatype write_progress = CutInsideArray | ArrayWritten

datatype fs_fault = OpenFails js_error | WriteFails js_error write_progress

definition writeFileSync :: "fs_fault option \<Rightarrow> log_file \<Rightarrow> log_file \<Rightarrow> (js_error + unit) \<times> log_file" where
  "writeFileSync fault data f =
     (case fault of
        None \<Rightarrow> (Inr (), data)
      | Some (OpenFails e) \<Rightarrow> (Inl e, f)
      | Some (WriteFails e progress) \<Rightarrow>
          (Inl e, case progress of CutInsideArray \<Rightarrow> Unreadable | ArrayWritten \<Rightarrow> data))"

definition writeVersionLog :: "fs_fault option \<Rightarrow> VersionLogEntry list \<Rightarrow> log_file \<Rightarrow> (js_error + unit) \<times> log_file" where
  "writeVersionLog fault entries f = writeFileSync fault (Holds entries) f"

definition appendVersionLog :: "fs_fault option \<Rightarrow> VersionLogEntry \<Rightarrow> log_file \<Rightarrow> (js_error + unit) \<times> log_file" where
  "appendVersionLog fault entry f =
     (let entries = readVersionLog f in writeVersionLog fault (entries @ [entry]) f)"

section \<open>The external services and the state they act on\<close>

text \<open>
  The state: the log file, and the requests that changed the Google Doc, in the order
  the document service accepted them.
\<close>

datatype doc_request = ReplaceAllText "ReplacementItem list" | OverwriteBody js_string

record world =
  logFile :: log_file
  docRequests :: "doc_request list"

text \<open>
  What the outside answers during one run; \<open>Inl\<close> is a rejected promise or a thrown
  error. Each endpoint is called at most once in a run, but for the generation service,
  whose answer is given per attempt (\<open>groqAttempt k\<close> is the outcome of the \<^verbatim>\<open>try\<close> block
  of attempt \<open>k\<close>: the POST, \<^verbatim>\<open>JSON.parse\<close> and the schema check).
\<close>

record services =
  fetchJobDescription :: "js_error + js_string"
  driveExport :: "js_error + js_string"
  groqAttempt :: "nat \<Rightarrow> js_error + AlignmentResponse"
  docsClient :: "js_error + unit"
  docsBatchUpdate :: "js_error + nat option list"
  docsOverwrite :: "js_error + unit"
  revisionsList :: "js_error + Revision list"
  revisionsGet :: "js_string \<Rightarrow> js_string option"
  fsFault :: "fs_fault option"

section \<open>Document service client (googleDrive.ts)\<close>

definition getResumeText :: "services \<Rightarrow> js_error + js_string" where
  "getResumeText sv = driveExport sv"

text \<open>
  \<^verbatim>\<open>applyWordReplacements\<close>: no request is sent for an empty list; otherwise one
  \<^verbatim>\<open>batchUpdate\<close>, whose replies carry \<^verbatim>\<open>occurrencesChanged\<close> (possibly missing).
\<close>

definition applyWordReplacements :: "services \<Rightarrow> ReplacementItem list \<Rightarrow> world \<Rightarrow> (js_error + nat) \<times> world" where
  "applyWordReplacements sv rs w =
     (case docsClient sv of
        Inl e \<Rightarrow> (Inl e, w)
      | Inr _ \<Rightarrow>
          if rs = [] then (Inr 0, w)
          else (case docsBatchUpdate sv of
                  Inl e \<Rightarrow> (Inl e, w)
                | Inr replies \<Rightarrow>
                    (Inr (sum_list (map (\<lambda>reply. case reply of None \<Rightarrow> 0 | Some n \<Rightarrow> n) replies)),
                     w\<lparr>docRequests := docRequests w @ [ReplaceAllText rs]\<rparr>)))"

text \<open>\<^verbatim>\<open>updateResumeText\<close>: reads the document's extent, then deletes the body and inserts \<open>text\<close>.\<close>

definition updateResumeText :: "services \<Rightarrow> js_string \<Rightarrow> world \<Rightarrow> (js_error + unit) \<times> world" where
  "updateResumeText sv text w =
     (case docsClient sv of
        Inl e \<Rightarrow> (Inl e, w)
      | Inr _ \<Rightarrow>
          (case docsOverwrite sv of
             Inl e \<Rightarrow> (Inl e, w)
           | Inr _ \<Rightarrow> (Inr (), w\<lparr>docRequests := docRequests w @ [OverwriteBody text]\<rparr>)))"

definition getRevisions :: "services \<Rightarrow> js_error + Revision list" where
  "getRevisions sv = revisionsList sv"

text \<open>\<^verbatim>\<open>getRevisionContent\<close>: when the revision cannot be fetched, the current text is exported instead.\<close>

definition getRevisionContent :: "services \<Rightarrow> js_string \<Rightarrow> js_error + js_string" where
  "getRevisionContent sv rid =
     (case revisionsGet sv rid of
        Some content \<Rightarrow> Inr content
      | None \<Rightarrow> getResumeText sv)"

section \<open>Generation service client (groqClient.ts)\<close>

definition maxRetries :: nat where
  "maxRetries = 3"

definition groqApiMessage :: "nat \<Rightarrow> js_string option \<Rightarrow> js_string \<Rightarrow> js_string" where
  "groqApiMessage status dataMessage errorMessage =
     js ''Groq API Error '' @ showNat status @ js '': '' @
     (case dataMessage of
        None \<Rightarrow> errorMessage
      | Some m \<Rightarrow> if m = [] then errorMessage else m)"

text \<open>
  The loop of \<^verbatim>\<open>getAlignmentSuggestions\<close>, from attempt \<open>attempt\<close> on. The second
  component of the result counts the requests that were sent.
\<close>

function attemptLoop :: "(nat \<Rightarrow> js_error + AlignmentResponse) \<Rightarrow> nat \<Rightarrow> js_error option \<Rightarrow> (js_error + AlignmentResponse) \<times> nat" where
  "attemptLoop post attempt lastError =
     (if attempt \<le> maxRetries then
        (case post attempt of
           Inr response \<Rightarrow> (Inr response, attempt)
         | Inl error \<Rightarrow>
             (case axiosResponse error of
                Some (status, dataMessage) \<Rightarrow>
                  (Inl (Error (groqApiMessage status dataMessage (message error))), attempt)
              | None \<Rightarrow>
                  if attempt < maxRetries \<and>
                     (js_includes (message error) (js ''JSON'') \<or> js_includes (message error) (js ''parse''))
                  then attemptLoop post (attempt + 1) (Some error)
                  else (Inl error, attempt)))
      else (case lastError of
              Some e \<Rightarrow> (Inl e, attempt - 1)
            | None \<Rightarrow> (Inl (Error (js ''Failed to get alignment suggestions'')), attempt - 1)))"
  by pat_completeness auto
termination
  by (relation "measure (\<lambda>(post, attempt, lastError). maxRetries + 1 - attempt)") auto

declare attemptLoop.simps [simp del]

definition getAlignmentSuggestions :: "services \<Rightarrow> (js_error + AlignmentResponse) \<times> nat" where
  "getAlignmentSuggestions sv = attemptLoop (groqAttempt sv) 1 None"

definition getResumeReplacements :: "services \<Rightarrow> js_string \<Rightarrow> js_error + ResumeUpdateResult" where
  "getResumeReplacements sv resumeText =
     (case fst (getAlignmentSuggestions sv) of
        Inl e \<Rightarrow> Inl e
      | Inr suggestions \<Rightarrow>
          Inr \<lparr>replacements_res =
                 map (\<lambda>r. \<lparr>original = original r, replacement = replacement r\<rparr>)
                   (validReplacements maxWordDelta resumeText (replacements suggestions)),
               changes_res = summary suggestions\<rparr>)"


text \<open>
  How the \<^verbatim>\<open>catch\<close> block sorts the outcome of one attempt. A failure counts as a
  transient parse failure when it carries no response of the API and its message
  contains \<^verbatim>\<open>JSON\<close> or \<^verbatim>\<open>parse\<close>; \<open>propagated\<close> is what the caller gets when the loop
  ends with that outcome.
\<close>

definition transientParseFailure :: "js_error + AlignmentResponse \<Rightarrow> bool" where
  "transientParseFailure outcome =
     (case outcome of
        Inr response \<Rightarrow> False
      | Inl error \<Rightarrow>
          axiosResponse error = None \<and>
          (js_includes (message error) (js ''JSON'') \<or> js_includes (message error) (js ''parse'')))"

definition propagated :: "js_error + AlignmentResponse \<Rightarrow> js_error + AlignmentResponse" where
  "propagated outcome =
     (case outcome of
        Inr response \<Rightarrow> Inr response
      | Inl error \<Rightarrow>
          (case axiosResponse error of
             Some (status, dataMessage) \<Rightarrow> Inl (Error (groqApiMessage status dataMessage (message error)))
           | None \<Rightarrow> Inl error))"

section \<open>UpdateCoordinator (main.ts, performUpdate and handleBatch)\<close>

record Metadata =
  company_md :: "js_string option"
  jobTitle_md :: "js_string option"
  jobUrl_md :: "js_string option"

text \<open>
  The value that \<^verbatim>\<open>performUpdate\<close> resolves to: \<open>Success rid\<close> is
  \<^verbatim>\<open>{ success: true, revisionId: rid }\<close>, \<open>Failure m\<close> is \<^verbatim>\<open>{ success: false, error: m }\<close>.
\<close>

datatype update_result = Success "js_string option" | Failure js_string

fun success :: "update_result \<Rightarrow> bool" where
  "success (Success rid) = True"
| "success (Failure m) = False"

text \<open>Reading \<^verbatim>\<open>.id\<close> of \<^verbatim>\<open>undefined\<close>, the last element of an empty array.\<close>

definition undefinedIdError :: js_error where
  "undefinedIdError = TypeError (js ''Cannot read properties of undefined (reading 'id')'')"

text \<open>
  \<^verbatim>\<open>performUpdate\<close>. The job description reaches the generation service only, whose
  answers are in \<open>sv\<close>; everything thrown inside is caught and returned as a failure.
\<close>

definition performUpdate :: "Metadata \<Rightarrow> bool \<Rightarrow> services \<Rightarrow> world \<Rightarrow> update_result \<times> world" where
  "performUpdate metadata dryRun sv w =
     (case getResumeText sv of
        Inl e \<Rightarrow> (Failure (message e), w)
      | Inr currentText \<Rightarrow>
     (case getResumeReplacements sv currentText of
        Inl e \<Rightarrow> (Failure (message e), w)
      | Inr result \<Rightarrow>
     if dryRun then (Success None, w)
     else
     (case applyWordReplacements sv (replacements_res result) w of
        (Inl e, w1) \<Rightarrow> (Failure (message e), w1)
      | (Inr appliedCount, w1) \<Rightarrow>
     (case getRevisions sv of
        Inl e \<Rightarrow> (Failure (message e), w1)
      | Inr revisions \<Rightarrow>
     if revisions = [] then (Failure (message undefinedIdError), w1)
     else
       let latestRevision = last revisions;
           logEntry = \<lparr>revisionId = id_rev latestRevision,
                       timestamp = modifiedTime latestRevision,
                       jobTitle = jobTitle_md metadata,
                       company = company_md metadata,
                       jobUrl = jobUrl_md metadata,
                       changes = changes_res result,
                       isRevert = False\<rparr>
       in (case appendVersionLog (fsFault sv) logEntry (logFile w1) of
             (Inl e, f) \<Rightarrow> (Failure (message e), w1\<lparr>logFile := f\<rparr>)
           | (Inr u, f) \<Rightarrow> (Success (Some (id_rev latestRevision)), w1\<lparr>logFile := f\<rparr>))))))"

text \<open>The entry that \<^verbatim>\<open>performUpdate\<close> builds from the newest revision.\<close>

definition updateEntry :: "Metadata \<Rightarrow> ResumeUpdateResult \<Rightarrow> Revision \<Rightarrow> VersionLogEntry" where
  "updateEntry md result latest =
     \<lparr>revisionId = id_rev latest, timestamp = modifiedTime latest,
      jobTitle = jobTitle_md md, company = company_md md, jobUrl = jobUrl_md md,
      changes = changes_res result, isRevert = False\<rparr>"

text \<open>
  One turn of the loop of \<^verbatim>\<open>handleBatch\<close>: the entry pushed to \<^verbatim>\<open>results\<close>.
  \<open>metadataOf\<close> stands for the company and job title that \<^verbatim>\<open>getMetadata\<close> finds for a job
  description and its URL.
\<close>

definition processUrl :: "(js_string \<Rightarrow> js_string \<Rightarrow> js_string option \<times> js_string option) \<Rightarrow> bool \<Rightarrow> js_string \<Rightarrow> services \<Rightarrow> world \<Rightarrow> (js_string \<times> update_result) \<times> world" where
  "processUrl metadataOf dryRun url sv w =
     (case fetchJobDescription sv of
        Inl e \<Rightarrow> ((url, Failure (message e)), w)
      | Inr jobDescription \<Rightarrow>
          let metadata = \<lparr>company_md = fst (metadataOf jobDescription url),
                          jobTitle_md = snd (metadataOf jobDescription url),
                          jobUrl_md = Some url\<rparr>;
              (result, w') = performUpdate metadata dryRun sv w
          in ((url, result), w'))"

fun batchLoop :: "(js_string \<Rightarrow> js_string \<Rightarrow> js_string option \<times> js_string option) \<Rightarrow> bool \<Rightarrow> (js_string \<times> services) list \<Rightarrow> world \<Rightarrow> (js_string \<times> update_result) list \<times> world" where
  "batchLoop metadataOf dryRun [] w = ([], w)"
| "batchLoop metadataOf dryRun ((url, sv) # rest) w =
     (let (r, w1) = processUrl metadataOf dryRun url sv w;
          (rs, w2) = batchLoop metadataOf dryRun rest w1
      in (r # rs, w2))"

text \<open>
  \<^verbatim>\<open>handleBatch\<close> from the list of URLs on, each with what the services answer while
  it is processed. The first component of the result is the exit status of the process.
\<close>

definition handleBatch :: "(js_string \<Rightarrow> js_string \<Rightarrow> js_string option \<times> js_string option) \<Rightarrow> bool \<Rightarrow> (js_string \<times> services) list \<Rightarrow> world \<Rightarrow> (nat \<times> (js_string \<times> update_result) list) \<times> world" where
  "handleBatch metadataOf dryRun urls w =
     (if urls = [] then ((1, []), w)
      else
        let (results, w') = batchLoop metadataOf dryRun urls w;
            successful = length (filter (\<lambda>r. success (snd r)) results);
            failed = length (filter (\<lambda>r. \<not> success (snd r)) results)
        in if failed > 0 \<and> successful = 0 then ((1, results), w') else ((0, results), w'))"

section \<open>RevisionReconciler (main.ts, handleList)\<close>

text \<open>The desync check of \<^verbatim>\<open>handleList\<close>: \<open>(missingRevisions, extraRevisions)\<close>.\<close>

definition reconcile :: "Revision list \<Rightarrow> VersionLogEntry list \<Rightarrow> js_string list \<times> js_string list" where
  "reconcile driveRevisions allEntries =
     (let driveRevisionIds = set (map id_rev driveRevisions);
          extraRevisions =
            map revisionId (filter (\<lambda>entry. revisionId entry \<notin> driveRevisionIds) allEntries);
          missingRevisions =
            map id_rev
              (filter (\<lambda>rev. find (\<lambda>e. revisionId e = id_rev rev) allEntries = None \<and>
                             Some (id_rev rev) \<noteq> map_option id_rev (case driveRevisions of [] \<Rightarrow> None | r # _ \<Rightarrow> Some r))
                 driveRevisions)
      in (missingRevisions, extraRevisions))"

text \<open>\<^verbatim>\<open>handleList\<close> up to the warning; the table it prints afterwards is not modelled.\<close>

definition handleList :: "services \<Rightarrow> world \<Rightarrow> (js_error + js_string list \<times> js_string list) \<times> world" where
  "handleList sv w =
     (case getRevisions sv of
        Inl e \<Rightarrow> (Inl e, w)
      | Inr driveRevisions \<Rightarrow> (Inr (reconcile driveRevisions (readVersionLog (logFile w))), w))"

section \<open>Selecting a log entry (main.ts, handleTag, handleRevert, handleExport)\<close>

text \<open>
  \<^verbatim>\<open>args.find((arg) => !arg.startsWith('--'))\<close>, with the test \<^verbatim>\<open>!arg\<close> that follows it;
  \<open>args\<close> is \<^verbatim>\<open>process.argv.slice(2)\<close>, so its first element is the command word.
\<close>

definition selectorToken :: "js_string list \<Rightarrow> js_string option" where
  "selectorToken args =
     (case find (\<lambda>arg. \<not> js_startsWith arg (js ''--'')) args of
        None \<Rightarrow> None
      | Some arg \<Rightarrow> if arg = [] then None else Some arg)"

text \<open>\<^verbatim>\<open>i = args.indexOf(flag); i !== -1 && args[i + 1] ? args[i + 1] : undefined\<close>\<close>

definition flagValue :: "js_string list \<Rightarrow> js_string \<Rightarrow> js_string option" where
  "flagValue args flag =
     (case dropWhile (\<lambda>arg. arg \<noteq> flag) args of
        f # v # rest \<Rightarrow> if v = [] then None else Some v
      | _ \<Rightarrow> None)"

text \<open>\<^verbatim>\<open>entries.findIndex(p)\<close>, with \<open>None\<close> for -1.\<close>

fun findIndex :: "('a \<Rightarrow> bool) \<Rightarrow> 'a list \<Rightarrow> nat option" where
  "findIndex p [] = None"
| "findIndex p (x # xs) = (if p x then Some 0 else map_option Suc (findIndex p xs))"

text \<open>
  The lines "Try as index first ... Try as revision ID" of \<^verbatim>\<open>handleRevert\<close> and
  \<^verbatim>\<open>handleExport\<close>, which are the same: the value of \<^verbatim>\<open>targetEntry\<close> after them.
\<close>

definition selectEntry :: "js_string \<Rightarrow> VersionLogEntry list \<Rightarrow> VersionLogEntry option" where
  "selectEntry arg localEntries =
     (case parseInt arg of
        None \<Rightarrow> find (\<lambda>e. revisionId e = arg) localEntries
      | Some index \<Rightarrow>
          if index \<ge> 0 \<and> index < int (length localEntries) then Some (localEntries ! nat index)
          else find (\<lambda>e. revisionId e = arg) localEntries)"

text \<open>The same lines of \<^verbatim>\<open>handleTag\<close>, which keeps the index: the value of \<^verbatim>\<open>targetIndex\<close>.\<close>

definition selectIndex :: "js_string \<Rightarrow> VersionLogEntry list \<Rightarrow> nat option" where
  "selectIndex arg localEntries =
     (case parseInt arg of
        None \<Rightarrow> findIndex (\<lambda>e. revisionId e = arg) localEntries
      | Some index \<Rightarrow>
          if index \<ge> 0 \<and> index < int (length localEntries) then Some (nat index)
          else findIndex (\<lambda>e. revisionId e = arg) localEntries)"

text \<open>How a handler ends other than by returning: each of these exits the process with status 1.\<close>

datatype failure = UsageError | NotFoundError | Thrown js_error

section \<open>Tagging a version (main.ts, handleTag)\<close>

text \<open>\<^verbatim>\<open>handleTag\<close> from \<^verbatim>\<open>readVersionLog()\<close> on, given the token and the values of the flags.\<close>

definition tagEntry :: "js_string \<Rightarrow> js_string option \<Rightarrow> js_string option \<Rightarrow> js_string option \<Rightarrow> fs_fault option \<Rightarrow> world \<Rightarrow> (failure + unit) \<times> world" where
  "tagEntry tagArg companyFlag jobTitleFlag jobUrlFlag fault w =
     (let localEntries = readVersionLog (logFile w) in
      case selectIndex tagArg localEntries of
        None \<Rightarrow> (Inl NotFoundError, w)
      | Some targetIndex \<Rightarrow>
          let targetEntry = localEntries ! targetIndex;
              targetEntry1 = (case companyFlag of None \<Rightarrow> targetEntry | Some c \<Rightarrow> targetEntry\<lparr>company := Some c\<rparr>);
              targetEntry2 = (case jobTitleFlag of None \<Rightarrow> targetEntry1 | Some t \<Rightarrow> targetEntry1\<lparr>jobTitle := Some t\<rparr>);
              targetEntry3 = (case jobUrlFlag of None \<Rightarrow> targetEntry2 | Some u \<Rightarrow> targetEntry2\<lparr>jobUrl := Some u\<rparr>)
          in (case writeVersionLog fault (localEntries[targetIndex := targetEntry3]) (logFile w) of
                (Inl e, f) \<Rightarrow> (Inl (Thrown e), w\<lparr>logFile := f\<rparr>)
              | (Inr u, f) \<Rightarrow> (Inr (), w\<lparr>logFile := f\<rparr>)))"

definition handleTag :: "js_string list \<Rightarrow> fs_fault option \<Rightarrow> world \<Rightarrow> (failure + unit) \<times> world" where
  "handleTag argv fault w =
     (let args = drop 2 argv in
      case selectorToken args of
        None \<Rightarrow> (Inl UsageError, w)
      | Some tagArg \<Rightarrow>
          let companyFlag = flagValue args (js ''--company'');
              jobTitleFlag = flagValue args (js ''--job-title'');
              jobUrlFlag = flagValue args (js ''--url'')
          in if companyFlag = None \<and> jobTitleFlag = None \<and> jobUrlFlag = None then (Inl UsageError, w)
             else tagEntry tagArg companyFlag jobTitleFlag jobUrlFlag fault w)"

section \<open>RevertCoordinator (main.ts, handleRevert)\<close>

text \<open>
  \<^verbatim>\<open>handleRevert\<close> from \<^verbatim>\<open>readVersionLog()\<close> on, given the token. On success the
  result is the id that the last line prints.
\<close>

definition revertTo :: "js_string \<Rightarrow> services \<Rightarrow> world \<Rightarrow> (failure + js_string) \<times> world" where
  "revertTo revertArg sv w =
     (let localEntries = readVersionLog (logFile w) in
      case selectEntry revertArg localEntries of
        None \<Rightarrow> (Inl NotFoundError, w)
      | Some targetEntry \<Rightarrow>
     (case getRevisionContent sv (revisionId targetEntry) of
        Inl e \<Rightarrow> (Inl (Thrown e), w)
      | Inr oldContent \<Rightarrow>
     (case updateResumeText sv oldContent w of
        (Inl e, w1) \<Rightarrow> (Inl (Thrown e), w1)
      | (Inr u, w1) \<Rightarrow>
     (case getRevisions sv of
        Inl e \<Rightarrow> (Inl (Thrown e), w1)
      | Inr revisions \<Rightarrow>
     if revisions = [] then (Inl (Thrown undefinedIdError), w1)
     else
       let latestRevision = last revisions;
           logEntry = \<lparr>revisionId = id_rev latestRevision,
                       timestamp = modifiedTime latestRevision,
                       jobTitle = None,
                       company = None,
                       jobUrl = None,
                       changes = [js ''Reverted to revision '' @ revisionId targetEntry],
                       isRevert = True\<rparr>
       in (case appendVersionLog (fsFault sv) logEntry (logFile w1) of
             (Inl e, f) \<Rightarrow> (Inl (Thrown e), w1\<lparr>logFile := f\<rparr>)
           | (Inr u, f) \<Rightarrow> (Inr (id_rev latestRevision), w1\<lparr>logFile := f\<rparr>))))))"

definition handleRevert :: "js_string list \<Rightarrow> services \<Rightarrow> world \<Rightarrow> (failure + js_string) \<times> world" where
  "handleRevert argv sv w =
     (case selectorToken (drop 2 argv) of
        None \<Rightarrow> (Inl UsageError, w)
      | Some revertArg \<Rightarrow> revertTo revertArg sv w)"

text \<open>\<^verbatim>\<open>handleExport\<close> up to the choice of the entry; the export itself is not modelled.\<close>

definition handleExport_target :: "js_string list \<Rightarrow> world \<Rightarrow> failure + VersionLogEntry" where
  "handleExport_target argv w =
     (case selectorToken (drop 2 argv) of
        None \<Rightarrow> Inl UsageError
      | Some exportArg \<Rightarrow>
          (case selectEntry exportArg (readVersionLog (logFile w)) of
             None \<Rightarrow> Inl NotFoundError
           | Some targetEntry \<Rightarrow> Inr targetEntry))"

section \<open>Scenarios\<close>

text \<open>The data of the scenarios that the theorems below are run on.\<close>

definition scenarioA_text :: js_string where
  "scenarioA_text = js ''Built two full-stack applications.''"

definition scenarioA_candidate :: Suggestion where
  "scenarioA_candidate =
     \<lparr>original = js ''Built two full-stack applications.'',
      replacement = js ''Built and scaled two full-stack AI applications.'',
      jd_alignment = None\<rparr>"

definition whole_sentence :: ReplacementItem where
  "whole_sentence =
     \<lparr>original = js ''Built two full-stack applications.'',
      replacement = js ''Built and scaled two full-stack AI applications.''\<rparr>"

definition inner_words :: ReplacementItem where
  "inner_words = \<lparr>original = js ''two full-stack'', replacement = js ''three full-stack''\<rparr>"

definition not_in_text :: ReplacementItem where
  "not_in_text = \<lparr>original = js ''Designed'', replacement = js ''Architected''\<rparr>"

definition revision :: "string \<Rightarrow> Revision" where
  "revision i = \<lparr>id_rev = js i, modifiedTime = js ''2025-01-01T00:00:00.000Z'', mimeType = js ''application/vnd.google-apps.document''\<rparr>"

definition logged :: "string \<Rightarrow> VersionLogEntry" where
  "logged i = \<lparr>revisionId = js i, timestamp = js ''2025-01-01T00:00:00.000Z'',
                jobTitle = Some (js ''Engineer''), company = None, jobUrl = None,
                changes = [js ''Reworded two bullets''], isRevert = False\<rparr>"

definition three_entries :: world where
  "three_entries = \<lparr>logFile = Holds [logged ''r1'', logged ''r2'', logged ''r3''], docRequests = []\<rparr>"

text \<open>Services that answer every call; the generation service proposes the candidate of scenario A.\<close>

definition answering :: services where
  "answering =
     \<lparr>fetchJobDescription = Inr (js ''Building and scaling AI systems''),
      driveExport = Inr scenarioA_text,
      groqAttempt = (\<lambda>attempt. Inr \<lparr>replacements = [scenarioA_candidate], summary = [js ''Leads with scaling'']\<rparr>),
      docsClient = Inr (),
      docsBatchUpdate = Inr [Some 1],
      docsOverwrite = Inr (),
      revisionsList = Inr [revision ''r0'', revision ''r1'', revision ''r2'', revision ''r3'', revision ''r4''],
      revisionsGet = (\<lambda>rid. Some (js ''Built two full-stack applications.'')),
      fsFault = None\<rparr>"


text \<open>The same services, but the listing of the revisions fails.\<close>

definition listing_fails :: services where
  "listing_fails = answering\<lparr>revisionsList := Inl (Error (js ''socket hang up''))\<rparr>"





text \<open>The generation service answers with text that is no JSON, then with a quota error.\<close>

definition parse_then_quota :: services where
  "parse_then_quota =
     answering\<lparr>groqAttempt := (\<lambda>attempt.
        if attempt = 1 then Inl (Error (js ''Unexpected token < in JSON at position 0''))
        else Inl (AxiosError (js ''Request failed with status code 429'')
                    (Some (429, Some (js ''Rate limit reached'')))))\<rparr>"

text \<open>The generation service never answers with JSON.\<close>

definition never_parses :: services where
  "never_parses = answering\<lparr>groqAttempt := (\<lambda>attempt. Inl (Error (js ''Unexpected end of JSON input'')))\<rparr>"

text \<open>The job posting cannot be scraped.\<close>

definition scrape_fails :: services where
  "scrape_fails = answering\<lparr>fetchJobDescription := Inl (Error (js ''Failed to scrape URL: timeout''))\<rparr>"

definition no_metadata :: "js_string \<Rightarrow> js_string \<Rightarrow> js_string option \<times> js_string option" where
  "no_metadata jobDescription url = (None, None)"

section \<open>Facts about the string operations and the store\<close>

lemma js_includes_sublist: "js_includes t s \<longleftrightarrow> sublist s t"
  by (induction t) (simp_all add: sublist_Cons_right)











lemma js_trim_decomp:
  "\<exists>lead trail. s = lead @ js_trim s @ trail \<and>
      (\<forall>c\<in>set lead. isWhiteSpace c) \<and> (\<forall>c\<in>set trail. isWhiteSpace c)"
proof -
  let ?m = "dropWhile isWhiteSpace s"
  let ?lead = "takeWhile isWhiteSpace s"
  let ?trail = "rev (takeWhile isWhiteSpace (rev ?m))"
  have "rev (takeWhile isWhiteSpace (rev ?m) @ dropWhile isWhiteSpace (rev ?m)) = rev (rev ?m)"
    by (simp only: takeWhile_dropWhile_id)
  then have "rev (dropWhile isWhiteSpace (rev ?m)) @ ?trail = ?m"
    by (simp only: rev_append rev_rev_ident)
  then have middle: "?m = js_trim s @ ?trail"
    unfolding js_trim_def by (rule sym)
  have "s = ?lead @ ?m"
    by simp
  with middle have whole: "s = ?lead @ js_trim s @ ?trail"
    by metis
  have lead: "\<forall>c\<in>set ?lead. isWhiteSpace c"
    by (auto dest: set_takeWhileD)
  have trail: "\<forall>c\<in>set ?trail. isWhiteSpace c"
    by (auto dest: set_takeWhileD)
  from whole lead trail show ?thesis
    by blast
qed



lemma count_list_filter: "count_list (filter p xs) x = (if p x then count_list xs x else 0)"
  by (induction xs) auto

lemma filter_as_concat: "filter p xs = concat (map (\<lambda>x. if p x then [x] else []) xs)"
  by (induction xs) auto

lemma find_None_iff_all: "find p xs = None \<longleftrightarrow> (\<forall>x\<in>set xs. \<not> p x)"
  by (induction xs) auto

lemma find_Some_mem: "find p xs = Some x \<Longrightarrow> x \<in> set xs \<and> p x"
  by (induction xs) (auto split: if_splits)

lemma findIndex_Some: "findIndex p xs = Some i \<Longrightarrow> i < length xs \<and> p (xs ! i)"
  by (induction xs arbitrary: i) (auto split: if_splits)

lemma selectIndex_less: "selectIndex arg es = Some i \<Longrightarrow> i < length es"
  by (auto simp: selectIndex_def split: option.splits if_splits dest: findIndex_Some)

lemma selectEntry_mem: "selectEntry arg es = Some e \<Longrightarrow> e \<in> set es"
  by (auto simp: selectEntry_def split: option.splits if_splits dest: find_Some_mem)

lemma selectEntry_Holds: "selectEntry arg (readVersionLog f) = Some e \<Longrightarrow> f = Holds (readVersionLog f)"
  by (cases f) (auto simp: readVersionLog_def selectEntry_def split: option.splits if_splits)

lemma writeVersionLog_cases:
  "writeVersionLog fault es f =
     (case fault of
        None \<Rightarrow> (Inr (), Holds es)
      | Some (OpenFails e) \<Rightarrow> (Inl e, f)
      | Some (WriteFails e progress) \<Rightarrow>
          (Inl e, case progress of CutInsideArray \<Rightarrow> Unreadable | ArrayWritten \<Rightarrow> Holds es))"
  by (simp add: writeVersionLog_def writeFileSync_def)

lemma appendVersionLog_cases:
  "appendVersionLog fault e f =
     (case fault of
        None \<Rightarrow> (Inr (), Holds (readVersionLog f @ [e]))
      | Some (OpenFails x) \<Rightarrow> (Inl x, f)
      | Some (WriteFails x progress) \<Rightarrow>
          (Inl x, case progress of CutInsideArray \<Rightarrow> Unreadable
                  | ArrayWritten \<Rightarrow> Holds (readVersionLog f @ [e])))"
  by (simp add: appendVersionLog_def writeVersionLog_cases Let_def)

lemma updateResumeText_log: "updateResumeText sv text w = (r, w1) \<Longrightarrow> logFile w1 = logFile w"
  by (auto simp: updateResumeText_def split: sum.splits)

lemma reconcile_extra:
  "snd (reconcile remote localEntries) = filter (\<lambda>i. i \<notin> id_rev ` set remote) (map revisionId localEntries)"
  by (simp add: reconcile_def filter_map comp_def)

lemma reconcile_missing:
  "fst (reconcile remote localEntries) =
     filter (\<lambda>i. i \<notin> revisionId ` set localEntries \<and> (case remote of [] \<Rightarrow> True | r0 # rest \<Rightarrow> i \<noteq> id_rev r0))
       (map id_rev remote)"
proof -
  have eq: "(\<forall>x\<in>set localEntries. revisionId x \<noteq> i) \<longleftrightarrow> i \<notin> revisionId ` set localEntries" for i
    by auto
  show ?thesis
    by (cases remote) (simp_all add: reconcile_def filter_map comp_def find_None_iff_all eq)
qed

lemmas string_eval = js_def js_trim_def js_split_ws_def isWhiteSpace_def isDigit_def js_startsWith_def

lemma js_append: "js a @ js b = js (a @ b)"
  by (simp add: js_def)

lemma parseInt_0: "parseInt (js ''0'') = Some 0"
  by (simp add: parseInt_def digitsValue_def string_eval)

lemma parseInt_1: "parseInt (js ''1'') = Some 1"
  by (simp add: parseInt_def digitsValue_def string_eval)

lemma answering_suggestions:
  "getAlignmentSuggestions answering =
     (Inr \<lparr>replacements = [scenarioA_candidate], summary = [js ''Leads with scaling'']\<rparr>, 1)"
  by (simp add: getAlignmentSuggestions_def attemptLoop.simps maxRetries_def answering_def)

lemma scenarioA_passes: "passesFilters 5 scenarioA_text scenarioA_candidate"
  by (simp add: passesFilters_def scenarioA_candidate_def scenarioA_text_def string_eval)

lemma answering_replacements:
  "getResumeReplacements answering scenarioA_text =
     Inr \<lparr>replacements_res = [whole_sentence], changes_res = [js ''Leads with scaling'']\<rparr>"
  using scenarioA_passes
  by (simp add: getResumeReplacements_def answering_suggestions validReplacements_def maxWordDelta_def
      whole_sentence_def scenarioA_candidate_def)

lemma whole_sentence_passes: "passesFilters 5 scenarioA_text whole_sentence"
  by (simp add: passesFilters_def whole_sentence_def scenarioA_text_def string_eval)

lemma inner_words_passes: "passesFilters 5 scenarioA_text inner_words"
  by (simp add: passesFilters_def inner_words_def scenarioA_text_def string_eval)

lemma not_in_text_fails: "\<not> passesFilters 5 scenarioA_text not_in_text"
  by (simp add: passesFilters_def not_in_text_def scenarioA_text_def string_eval)

lemma inner_words_overlap: "sublist (original inner_words) (original whole_sentence)"
  by (simp add: js_includes_sublist [symmetric] inner_words_def whole_sentence_def string_eval)

lemma scenario_items_differ: "inner_words \<noteq> whole_sentence" "not_in_text \<noteq> whole_sentence"
  by (simp_all add: inner_words_def not_in_text_def whole_sentence_def js_def)

section \<open>ReplacementValidator: what is accepted\<close>




section \<open>ReplacementValidator: a filter that keeps the order\<close>

text \<open>
  Claim C7. The accepted list is the input with each candidate kept or dropped on its own
  test, which reads the document text and that candidate only; so the order of the input
  is kept, a candidate that passes occurs as often as in the input (nothing is
  deduplicated, also not two candidates of which one \<open>original\<close> lies inside the other),
  and running the validator on its own output changes nothing.
\<close>

theorem validator_order_preserving_filter:
  "validReplacements maxDelta t rs = concat (map (\<lambda>r. if passesFilters maxDelta t r then [r] else []) rs)
   \<and> subseq (validReplacements maxDelta t rs) rs
   \<and> count_list (validReplacements maxDelta t rs) r = (if passesFilters maxDelta t r then count_list rs r else 0)
   \<and> (r1 \<in> set rs \<and> r2 \<in> set rs \<and> passesFilters maxDelta t r1 \<and> passesFilters maxDelta t r2 \<and>
        sublist (original r1) (original r2)
        \<longrightarrow> r1 \<in> set (validReplacements maxDelta t rs) \<and> r2 \<in> set (validReplacements maxDelta t rs))
   \<and> validReplacements maxDelta t (validReplacements maxDelta t rs) = validReplacements maxDelta t rs"
  unfolding validReplacements_def
  by (simp add: count_list_filter filter_as_concat [symmetric])

theorem validator_order_preserving_filter_witness:
  "validReplacements 5 scenarioA_text [whole_sentence, not_in_text, inner_words, whole_sentence]
     = [whole_sentence, inner_words, whole_sentence]
   \<and> sublist (original inner_words) (original whole_sentence)
   \<and> inner_words \<in> set (validReplacements 5 scenarioA_text [whole_sentence, not_in_text, inner_words, whole_sentence])
   \<and> count_list (validReplacements 5 scenarioA_text [whole_sentence, not_in_text, inner_words, whole_sentence]) whole_sentence = 2
   \<and> validReplacements 5 scenarioA_text [whole_sentence, inner_words, whole_sentence]
     = [whole_sentence, inner_words, whole_sentence]"
  using validator_order_preserving_filter
      [of 5 scenarioA_text "[whole_sentence, not_in_text, inner_words, whole_sentence]" whole_sentence inner_words whole_sentence]
    whole_sentence_passes inner_words_passes not_in_text_fails inner_words_overlap scenario_items_differ
  by (simp add: validReplacements_def)

section \<open>RevisionReconciler\<close>

text \<open>
  Claim C5. For every local log and every remote revision list, \<open>extra\<close> holds the
  revision ids of the log that no remote revision has, and \<open>missing\<close> the ids of the remote
  revisions that no log entry has, without the id of the oldest (first) revision.
  \<^verbatim>\<open>handleList\<close> computes them from what it reads and leaves the log file and the
  document as they were. With r0 the oldest of the remote ids r0, r1, r2, r3 and the
  local ids r1, r2: \<open>missing\<close> is r3 and \<open>extra\<close> is empty.
\<close>

theorem reconciliation_missing_extra:
  "set (snd (reconcile remote localEntries)) = revisionId ` set localEntries - id_rev ` set remote
   \<and> set (fst (reconcile remote localEntries)) =
        (id_rev ` set remote - revisionId ` set localEntries) - (case remote of [] \<Rightarrow> {} | r0 # rest \<Rightarrow> {id_rev r0})
   \<and> snd (handleList sv w) = w
   \<and> (getRevisions sv = Inr remote \<longrightarrow>
        fst (handleList sv w) = Inr (reconcile remote (readVersionLog (logFile w))))
   \<and> (map id_rev remote = r0 # others \<and> set others = {r1, r2, r3} \<and> r0 \<notin> {r1, r2, r3} \<and> r3 \<notin> {r1, r2} \<and>
        revisionId ` set localEntries = {r1, r2}
        \<longrightarrow> set (fst (reconcile remote localEntries)) = {r3} \<and> set (snd (reconcile remote localEntries)) = {})"
proof -
  have extra: "set (snd (reconcile remote localEntries)) = revisionId ` set localEntries - id_rev ` set remote"
    by (auto simp: reconcile_extra)
  have missing: "set (fst (reconcile remote localEntries)) =
        (id_rev ` set remote - revisionId ` set localEntries) - (case remote of [] \<Rightarrow> {} | r0 # rest \<Rightarrow> {id_rev r0})"
    by (cases remote) (auto simp: reconcile_missing)
  have frame: "snd (handleList sv w) = w"
    by (simp add: handleList_def split: sum.splits)
  have result: "getRevisions sv = Inr remote \<longrightarrow>
        fst (handleList sv w) = Inr (reconcile remote (readVersionLog (logFile w)))"
    by (simp add: handleList_def)
  have example: "set (fst (reconcile remote localEntries)) = {r3} \<and> set (snd (reconcile remote localEntries)) = {}"
    if h: "map id_rev remote = r0 # others \<and> set others = {r1, r2, r3} \<and> r0 \<notin> {r1, r2, r3} \<and> r3 \<notin> {r1, r2} \<and>
        revisionId ` set localEntries = {r1, r2}"
  proof -
    from h obtain x xs where remote: "remote = x # xs" and x: "id_rev x = r0" and xs: "map id_rev xs = others"
      by (cases remote) auto
    from xs h have ids: "id_rev ` set xs = {r1, r2, r3}"
      by (metis list.set_map)
    show ?thesis
      unfolding extra missing using h ids x by (auto simp: remote)
  qed
  from extra missing frame result example show ?thesis by blast
qed

theorem reconciliation_missing_extra_witness:
  "reconcile [revision ''r0'', revision ''r1'', revision ''r2'', revision ''r3''] [logged ''r1'', logged ''r2'']
     = ([js ''r3''], [])
   \<and> set (fst (reconcile [revision ''r0'', revision ''r1'', revision ''r2'', revision ''r3''] [logged ''r1'', logged ''r2'']))
     = {js ''r3''}
   \<and> set (snd (reconcile [revision ''r0'', revision ''r1'', revision ''r2'', revision ''r3''] [logged ''r1'', logged ''r2'']))
     = {}
   \<and> handleList answering three_entries = (Inr ([js ''r4''], []), three_entries)"
proof -
  have ids: "map id_rev [revision ''r0'', revision ''r1'', revision ''r2'', revision ''r3'']
        = js ''r0'' # [js ''r1'', js ''r2'', js ''r3'']
      \<and> set [js ''r1'', js ''r2'', js ''r3''] = {js ''r1'', js ''r2'', js ''r3''}
      \<and> js ''r0'' \<notin> {js ''r1'', js ''r2'', js ''r3''} \<and> js ''r3'' \<notin> {js ''r1'', js ''r2''}
      \<and> revisionId ` set [logged ''r1'', logged ''r2''] = {js ''r1'', js ''r2''}"
    by (simp add: revision_def logged_def js_def)
  have lists: "reconcile [revision ''r0'', revision ''r1'', revision ''r2'', revision ''r3''] [logged ''r1'', logged ''r2'']
     = ([js ''r3''], [])"
    by (simp add: reconcile_def revision_def logged_def js_def)
  have listing: "handleList answering three_entries = (Inr ([js ''r4''], []), three_entries)"
    by (simp add: handleList_def getRevisions_def answering_def three_entries_def readVersionLog_def
        reconcile_def revision_def logged_def js_def)
  from reconciliation_missing_extra
      [of "[revision ''r0'', revision ''r1'', revision ''r2'', revision ''r3'']" "[logged ''r1'', logged ''r2'']"
          answering three_entries "js ''r0''" "[js ''r1'', js ''r2'', js ''r3'']" "js ''r1''" "js ''r2''" "js ''r3''"]
    ids lists listing
  show ?thesis by blast
qed

section \<open>Tagging rewrites the metadata of one entry\<close>

text \<open>
  Claim C6, as the code has it. When the token resolves to no entry, tagging ends with
  NotFoundError and the state is as before. When it resolves to the entry at index \<open>i\<close>,
  tagging completes exactly when the write of the log does, and then the log holds the
  entries it held before, but
  for entry \<open>i\<close>, of which \<open>company\<close>, \<open>jobTitle\<close> and \<open>jobUrl\<close> have the values of the
  flags that were given (a field without flag keeps its value) and \<open>revisionId\<close>,
  \<open>timestamp\<close>, \<open>changes\<close> and \<open>isRevert\<close> are as before.
\<close>

theorem tag_rewrites_only_metadata:
  assumes run: "tagEntry tagArg companyFlag jobTitleFlag jobUrlFlag fault w = (res, w')"
  shows "(selectIndex tagArg (readVersionLog (logFile w)) = None \<longrightarrow> res = Inl NotFoundError \<and> w' = w)
    \<and> (\<forall>i. selectIndex tagArg (readVersionLog (logFile w)) = Some i \<longrightarrow>
          (res = Inr () \<longleftrightarrow> fault = None) \<and>
          (res = Inr () \<longrightarrow>
            (let old = readVersionLog (logFile w); new = readVersionLog (logFile w') in
               logFile w' = Holds new \<and> docRequests w' = docRequests w \<and>
               i < length old \<and> length new = length old \<and>
               (\<forall>j < length old. j \<noteq> i \<longrightarrow> new ! j = old ! j) \<and>
               revisionId (new ! i) = revisionId (old ! i) \<and>
               timestamp (new ! i) = timestamp (old ! i) \<and>
               changes (new ! i) = changes (old ! i) \<and>
               isRevert (new ! i) = isRevert (old ! i) \<and>
               company (new ! i) = (case companyFlag of None \<Rightarrow> company (old ! i) | Some c \<Rightarrow> Some c) \<and>
               jobTitle (new ! i) = (case jobTitleFlag of None \<Rightarrow> jobTitle (old ! i) | Some t \<Rightarrow> Some t) \<and>
               jobUrl (new ! i) = (case jobUrlFlag of None \<Rightarrow> jobUrl (old ! i) | Some u \<Rightarrow> Some u))))"
proof -
  let ?old = "readVersionLog (logFile w)"
  have none: "res = Inl NotFoundError \<and> w' = w" if "selectIndex tagArg ?old = None"
    using run that by (simp add: tagEntry_def)
  have completes: "res = Inr () \<longleftrightarrow> fault = None" if "selectIndex tagArg ?old = Some i" for i
    using run that
    by (auto simp: tagEntry_def Let_def writeVersionLog_cases split: option.splits fs_fault.splits write_progress.splits)
  have frame:
    "let old = readVersionLog (logFile w); new = readVersionLog (logFile w') in
       logFile w' = Holds new \<and> docRequests w' = docRequests w \<and>
       i < length old \<and> length new = length old \<and>
       (\<forall>j < length old. j \<noteq> i \<longrightarrow> new ! j = old ! j) \<and>
       revisionId (new ! i) = revisionId (old ! i) \<and>
       timestamp (new ! i) = timestamp (old ! i) \<and>
       changes (new ! i) = changes (old ! i) \<and>
       isRevert (new ! i) = isRevert (old ! i) \<and>
       company (new ! i) = (case companyFlag of None \<Rightarrow> company (old ! i) | Some c \<Rightarrow> Some c) \<and>
       jobTitle (new ! i) = (case jobTitleFlag of None \<Rightarrow> jobTitle (old ! i) | Some t \<Rightarrow> Some t) \<and>
       jobUrl (new ! i) = (case jobUrlFlag of None \<Rightarrow> jobUrl (old ! i) | Some u \<Rightarrow> Some u)"
    if sel: "selectIndex tagArg ?old = Some i" and ok: "res = Inr ()" for i
  proof -
    from sel have i: "i < length ?old"
      by (rule selectIndex_less)
    from completes [OF sel] ok have fault: "fault = None"
      by simp
    from run sel fault i show ?thesis
      by (auto simp: tagEntry_def Let_def writeVersionLog_cases readVersionLog_def split: option.splits)
  qed
  from none completes frame show ?thesis
    by blast
qed

text \<open>
  Scenario D, with the token 1 and \<^verbatim>\<open>--company Acme\<close> on a log of three entries: entry 1
  gets the company, and nothing else changes. With a token that resolves to nothing the
  state stays.
\<close>

theorem tag_rewrites_only_metadata_witness:
  "tagEntry (js ''1'') (Some (js ''Acme'')) None None None three_entries =
     (Inr (), three_entries\<lparr>logFile := Holds [logged ''r1'', (logged ''r2'')\<lparr>company := Some (js ''Acme'')\<rparr>, logged ''r3'']\<rparr>)
   \<and> selectIndex (js ''1'') (readVersionLog (logFile three_entries)) = Some 1
   \<and> revisionId ((logged ''r2'')\<lparr>company := Some (js ''Acme'')\<rparr>) = revisionId (logged ''r2'')
   \<and> company ((logged ''r2'')\<lparr>company := Some (js ''Acme'')\<rparr>) = Some (js ''Acme'')
   \<and> tagEntry (js ''r9'') (Some (js ''Acme'')) None None None three_entries = (Inl NotFoundError, three_entries)"
proof -
  let ?w' = "three_entries\<lparr>logFile := Holds [logged ''r1'', (logged ''r2'')\<lparr>company := Some (js ''Acme'')\<rparr>, logged ''r3'']\<rparr>"
  have sel: "selectIndex (js ''1'') (readVersionLog (logFile three_entries)) = Some 1"
    by (simp add: selectIndex_def parseInt_1 three_entries_def readVersionLog_def)
  have run: "tagEntry (js ''1'') (Some (js ''Acme'')) None None None three_entries = (Inr (), ?w')"
    by (simp add: tagEntry_def selectIndex_def parseInt_1 three_entries_def readVersionLog_def
        writeVersionLog_cases Let_def)
  have "parseInt (js ''r9'') = None"
    by (simp add: parseInt_def string_eval)
  then have none: "selectIndex (js ''r9'') (readVersionLog (logFile three_entries)) = None"
    by (simp add: selectIndex_def three_entries_def readVersionLog_def logged_def js_def)
  obtain res w' where run9: "tagEntry (js ''r9'') (Some (js ''Acme'')) None None None three_entries = (res, w')"
    by (cases "tagEntry (js ''r9'') (Some (js ''Acme'')) None None None three_entries")
  from tag_rewrites_only_metadata [OF run9] none have "res = Inl NotFoundError \<and> w' = three_entries"
    by blast
  with run9 have missing: "tagEntry (js ''r9'') (Some (js ''Acme'')) None None None three_entries = (Inl NotFoundError, three_entries)"
    by simp
  from tag_rewrites_only_metadata [OF run] sel
  have "revisionId ((logged ''r2'')\<lparr>company := Some (js ''Acme'')\<rparr>) = revisionId (logged ''r2'')
      \<and> company ((logged ''r2'')\<lparr>company := Some (js ''Acme'')\<rparr>) = Some (js ''Acme'')"
    by (simp add: Let_def three_entries_def readVersionLog_def)
  with run sel missing show ?thesis
    by blast
qed

text \<open>
  The claim as the specification words it, for every tag whose token resolves, fails
  when the write of the log fails inside the array: the token 1 resolves to entry 1 of
  three, the tag ends with the error of the write, and the next read finds none of the
  three entries.
\<close>

theorem tag_write_fails_counterexample:
  "selectIndex (js ''1'') (readVersionLog (logFile three_entries)) = Some 1
   \<and> tagEntry (js ''1'') (Some (js ''Acme'')) None None
        (Some (WriteFails (Error (js ''ENOSPC: no space left on device, write'')) CutInsideArray)) three_entries
      = (Inl (Thrown (Error (js ''ENOSPC: no space left on device, write''))), three_entries\<lparr>logFile := Unreadable\<rparr>)
   \<and> readVersionLog (logFile three_entries) = [logged ''r1'', logged ''r2'', logged ''r3'']
   \<and> readVersionLog (logFile (three_entries\<lparr>logFile := Unreadable\<rparr>)) = []"
proof -
  have sel: "selectIndex (js ''1'') (readVersionLog (logFile three_entries)) = Some 1"
    by (simp add: selectIndex_def parseInt_1 three_entries_def readVersionLog_def)
  have run: "tagEntry (js ''1'') (Some (js ''Acme'')) None None
        (Some (WriteFails (Error (js ''ENOSPC: no space left on device, write'')) CutInsideArray)) three_entries
      = (Inl (Thrown (Error (js ''ENOSPC: no space left on device, write''))), three_entries\<lparr>logFile := Unreadable\<rparr>)"
    by (simp add: tagEntry_def sel writeVersionLog_cases Let_def)
  have reads: "readVersionLog (logFile three_entries) = [logged ''r1'', logged ''r2'', logged ''r3'']"
      "readVersionLog (logFile (three_entries\<lparr>logFile := Unreadable\<rparr>)) = []"
    by (simp_all add: three_entries_def readVersionLog_def)
  from sel run reads show ?thesis
    by simp
qed

section \<open>Revert appends one entry\<close>

text \<open>
  Claim C4. A revert that succeeds started from a readable log \<open>old\<close> of some length \<open>n\<close>
  and a target entry in it, and leaves the log \<open>old\<close> followed by one new entry: the
  entries at 0..n-1 are the old ones, and the entry at index \<open>n\<close> has \<open>isRevert\<close> set,
  takes its \<open>revisionId\<close> from the last revision that the service lists after the
  overwrite and not from the target, and its \<open>changes\<close> are the one line that names the
  target's \<open>revisionId\<close>.
\<close>

theorem revert_appends_one_entry:
  assumes run: "revertTo revertArg sv w = (Inr newId, w')"
  shows "\<exists>old target revisions.
           logFile w = Holds old \<and> selectEntry revertArg old = Some target \<and> target \<in> set old \<and>
           getRevisions sv = Inr revisions \<and> revisions \<noteq> [] \<and> newId = id_rev (last revisions) \<and>
           logFile w' = Holds (old @ [\<lparr>revisionId = id_rev (last revisions),
                                       timestamp = modifiedTime (last revisions),
                                       jobTitle = None, company = None, jobUrl = None,
                                       changes = [js ''Reverted to revision '' @ revisionId target],
                                       isRevert = True\<rparr>]) \<and>
           length (readVersionLog (logFile w')) = length old + 1 \<and>
           take (length old) (readVersionLog (logFile w')) = old \<and>
           isRevert (readVersionLog (logFile w') ! length old)"
proof -
  let ?old = "readVersionLog (logFile w)"
  from run obtain target where sel: "selectEntry revertArg ?old = Some target"
    by (auto simp: revertTo_def Let_def split: option.splits)
  from sel have holds: "logFile w = Holds ?old"
    by (rule selectEntry_Holds)
  from sel have mem: "target \<in> set ?old"
    by (rule selectEntry_mem)
  from run sel obtain content where content: "getRevisionContent sv (revisionId target) = Inr content"
    by (auto simp: revertTo_def Let_def split: sum.splits)
  from run sel content obtain w1 where upd: "updateResumeText sv content w = (Inr (), w1)"
    by (auto simp: revertTo_def Let_def split: sum.splits prod.splits)
  from upd have log1: "logFile w1 = logFile w"
    by (rule updateResumeText_log)
  from run sel content upd obtain revisions where revs: "getRevisions sv = Inr revisions"
    by (auto simp: revertTo_def Let_def split: sum.splits)
  from run sel content upd revs have nonempty: "revisions \<noteq> []"
    by (auto simp: revertTo_def Let_def split: if_splits)
  from run sel content upd revs nonempty log1 have fault: "fsFault sv = None"
    by (auto simp: revertTo_def Let_def appendVersionLog_cases split: option.splits fs_fault.splits write_progress.splits)
  from run sel content upd revs nonempty log1 fault
  have "newId = id_rev (last revisions) \<and>
        logFile w' = Holds (?old @ [\<lparr>revisionId = id_rev (last revisions),
                                       timestamp = modifiedTime (last revisions),
                                       jobTitle = None, company = None, jobUrl = None,
                                       changes = [js ''Reverted to revision '' @ revisionId target],
                                       isRevert = True\<rparr>])"
    by (auto simp: revertTo_def Let_def appendVersionLog_cases)
  with holds sel mem revs nonempty show ?thesis
    by (intro exI [of _ ?old] exI [of _ target] exI [of _ revisions]) (simp add: readVersionLog_def)
qed

text \<open>
  Scenario C, with the token 0 on a log of three entries: the log gets a fourth entry,
  a revert that names r1, the \<open>revisionId\<close> of entry 0, and carries the id r4 of the
  newest revision; entries 0 to 2 stay.
\<close>

theorem revert_appends_one_entry_witness:
  "revertTo (js ''0'') answering three_entries =
     (Inr (js ''r4''),
      \<lparr>logFile = Holds [logged ''r1'', logged ''r2'', logged ''r3'',
          \<lparr>revisionId = js ''r4'', timestamp = js ''2025-01-01T00:00:00.000Z'',
           jobTitle = None, company = None, jobUrl = None,
           changes = [js ''Reverted to revision r1''], isRevert = True\<rparr>],
       docRequests = [OverwriteBody (js ''Built two full-stack applications.'')]\<rparr>)
   \<and> (\<exists>old target. logFile three_entries = Holds old \<and> selectEntry (js ''0'') old = Some target \<and>
         take (length old)
           [logged ''r1'', logged ''r2'', logged ''r3'',
            \<lparr>revisionId = js ''r4'', timestamp = js ''2025-01-01T00:00:00.000Z'',
             jobTitle = None, company = None, jobUrl = None,
             changes = [js ''Reverted to revision r1''], isRevert = True\<rparr>] = old)"
proof -
  have run: "revertTo (js ''0'') answering three_entries =
     (Inr (js ''r4''),
      \<lparr>logFile = Holds [logged ''r1'', logged ''r2'', logged ''r3'',
          \<lparr>revisionId = js ''r4'', timestamp = js ''2025-01-01T00:00:00.000Z'',
           jobTitle = None, company = None, jobUrl = None,
           changes = [js ''Reverted to revision r1''], isRevert = True\<rparr>],
       docRequests = [OverwriteBody (js ''Built two full-stack applications.'')]\<rparr>)"
    by (simp add: revertTo_def selectEntry_def parseInt_0 three_entries_def readVersionLog_def
        getRevisionContent_def updateResumeText_def getRevisions_def answering_def
        appendVersionLog_cases revision_def logged_def js_append Let_def)
  from revert_appends_one_entry [OF run] run show ?thesis
    by (auto simp: readVersionLog_def)
qed

section \<open>Facts about the update\<close>

lemma applyWordReplacements_fst:
  "fst (applyWordReplacements sv rs w) = fst (applyWordReplacements sv rs w0)"
  by (simp add: applyWordReplacements_def split: sum.splits)

lemma applyWordReplacements_log:
  "logFile (snd (applyWordReplacements sv rs w)) = logFile w"
  by (simp add: applyWordReplacements_def split: sum.splits)

lemma applyWordReplacements_Inl:
  "fst (applyWordReplacements sv rs w) = Inl x \<Longrightarrow> snd (applyWordReplacements sv rs w) = w"
  by (auto simp: applyWordReplacements_def split: sum.splits if_splits)

lemma performUpdate_text_fails:
  "getResumeText sv = Inl x \<Longrightarrow> performUpdate md dryRun sv w = (Failure (message x), w)"
  by (simp add: performUpdate_def)

lemma performUpdate_suggest_fails:
  "getResumeText sv = Inr text \<Longrightarrow> getResumeReplacements sv text = Inl x \<Longrightarrow>
   performUpdate md dryRun sv w = (Failure (message x), w)"
  by (simp add: performUpdate_def)

lemma performUpdate_dry:
  "getResumeText sv = Inr text \<Longrightarrow> getResumeReplacements sv text = Inr result \<Longrightarrow>
   performUpdate md True sv w = (Success None, w)"
  by (simp add: performUpdate_def)

lemma performUpdate_apply_fails:
  "getResumeText sv = Inr text \<Longrightarrow> getResumeReplacements sv text = Inr result \<Longrightarrow>
   fst (applyWordReplacements sv (replacements_res result) w) = Inl x \<Longrightarrow>
   performUpdate md False sv w = (Failure (message x), w)"
  using applyWordReplacements_Inl [of sv "replacements_res result" w x]
  by (cases "applyWordReplacements sv (replacements_res result) w") (simp add: performUpdate_def)

lemma performUpdate_listing_fails:
  "getResumeText sv = Inr text \<Longrightarrow> getResumeReplacements sv text = Inr result \<Longrightarrow>
   applyWordReplacements sv (replacements_res result) w = (Inr n, w1) \<Longrightarrow>
   getRevisions sv = Inl x \<Longrightarrow>
   performUpdate md False sv w = (Failure (message x), w1)"
  by (simp add: performUpdate_def)

lemma performUpdate_no_revision:
  "getResumeText sv = Inr text \<Longrightarrow> getResumeReplacements sv text = Inr result \<Longrightarrow>
   applyWordReplacements sv (replacements_res result) w = (Inr n, w1) \<Longrightarrow>
   getRevisions sv = Inr [] \<Longrightarrow>
   performUpdate md False sv w = (Failure (message undefinedIdError), w1)"
  by (simp add: performUpdate_def)

lemma performUpdate_appends:
  "getResumeText sv = Inr text \<Longrightarrow> getResumeReplacements sv text = Inr result \<Longrightarrow>
   applyWordReplacements sv (replacements_res result) w = (Inr n, w1) \<Longrightarrow>
   getRevisions sv = Inr revs \<Longrightarrow> revs \<noteq> [] \<Longrightarrow>
   performUpdate md False sv w =
     (case fsFault sv of
        None \<Rightarrow> (Success (Some (id_rev (last revs))),
                 w1\<lparr>logFile := Holds (readVersionLog (logFile w) @ [updateEntry md result (last revs)])\<rparr>)
      | Some (OpenFails x) \<Rightarrow> (Failure (message x), w1)
      | Some (WriteFails x progress) \<Rightarrow>
          (Failure (message x),
           w1\<lparr>logFile := (case progress of CutInsideArray \<Rightarrow> Unreadable
                            | ArrayWritten \<Rightarrow> Holds (readVersionLog (logFile w) @ [updateEntry md result (last revs)]))\<rparr>))"
  using applyWordReplacements_log [of sv "replacements_res result" w]
  by (simp add: performUpdate_def Let_def appendVersionLog_cases updateEntry_def
      split: option.splits fs_fault.splits write_progress.splits)


lemma listing_fails_replacements:
  "getResumeReplacements listing_fails scenarioA_text =
     Inr \<lparr>replacements_res = [whole_sentence], changes_res = [js ''Leads with scaling'']\<rparr>"
  using answering_replacements
  by (simp add: getResumeReplacements_def getAlignmentSuggestions_def listing_fails_def)



section \<open>An update logs an entry when the revisions could be listed\<close>






section \<open>The log file is rewritten in place\<close>




section \<open>Facts about the retry loop and the batch loop\<close>

lemma attemptLoop_retry:
  assumes "attempt < maxRetries" and "transientParseFailure (post attempt)"
  shows "\<exists>e. post attempt = Inl e \<and> axiosResponse e = None \<and>
           (js_includes (message e) (js ''JSON'') \<or> js_includes (message e) (js ''parse'')) \<and>
           attemptLoop post attempt lastError = attemptLoop post (attempt + 1) (Some e)"
  using assms
  by (subst attemptLoop.simps) (auto simp: transientParseFailure_def split: sum.splits)

lemma attemptLoop_stop:
  assumes "attempt \<le> maxRetries" and "\<not> (attempt < maxRetries \<and> transientParseFailure (post attempt))"
  shows "attemptLoop post attempt lastError = (propagated (post attempt), attempt)"
  using assms
  by (subst attemptLoop.simps)
     (auto simp: transientParseFailure_def propagated_def split: sum.splits option.splits)

lemma attemptLoop_shape:
  "attempt \<le> maxRetries \<Longrightarrow> attemptLoop post attempt lastError = (res, n) \<Longrightarrow>
   attempt \<le> n \<and> n \<le> maxRetries \<and>
   (\<forall>k. attempt \<le> k \<and> k < n \<longrightarrow> transientParseFailure (post k)) \<and>
   (n < maxRetries \<longrightarrow> \<not> transientParseFailure (post n)) \<and>
   res = propagated (post n)"
proof (induction post attempt lastError arbitrary: res n rule: attemptLoop.induct)
  case (1 post attempt lastError)
  show ?case
  proof (cases "attempt < maxRetries \<and> transientParseFailure (post attempt)")
    case False
    from "1.prems"(1) False have "attemptLoop post attempt lastError = (propagated (post attempt), attempt)"
      by (rule attemptLoop_stop)
    with "1.prems"(2) have "res = propagated (post attempt) \<and> n = attempt"
      by auto
    with False "1.prems" show ?thesis
      by auto
  next
    case True
    with attemptLoop_retry [of attempt post lastError] obtain e where
      e: "post attempt = Inl e" "axiosResponse e = None"
         "js_includes (message e) (js ''JSON'') \<or> js_includes (message e) (js ''parse'')"
      and next_attempt: "attemptLoop post attempt lastError = attemptLoop post (attempt + 1) (Some e)"
      by blast
    from True have le: "attempt + 1 \<le> maxRetries"
      by simp
    from "1.prems" next_attempt have run: "attemptLoop post (attempt + 1) (Some e) = (res, n)"
      by simp
    from True e have cond: "attempt < maxRetries \<and>
        (js_includes (message e) (js ''JSON'') \<or> js_includes (message e) (js ''parse''))"
      by simp
    from "1.IH" [OF "1.prems"(1) e(1) e(2) cond le run]
    have ih: "attempt + 1 \<le> n \<and> n \<le> maxRetries \<and>
        (\<forall>k. attempt + 1 \<le> k \<and> k < n \<longrightarrow> transientParseFailure (post k)) \<and>
        (n < maxRetries \<longrightarrow> \<not> transientParseFailure (post n)) \<and>
        res = propagated (post n)" .
    have "transientParseFailure (post k)" if "attempt \<le> k \<and> k < n" for k
    proof (cases "k = attempt")
      case True
      with \<open>attempt < maxRetries \<and> transientParseFailure (post attempt)\<close> show ?thesis
        by simp
    next
      case False
      with that have "attempt + 1 \<le> k \<and> k < n"
        by simp
      with ih show ?thesis
        by blast
    qed
    with ih show ?thesis
      by simp
  qed
qed

lemma appendVersionLog_fst: "fst (appendVersionLog fault e f) = fst (appendVersionLog fault e f0)"
  by (simp add: appendVersionLog_cases split: option.splits fs_fault.splits write_progress.splits)

lemma performUpdate_success_indep:
  "success (fst (performUpdate md dryRun sv w)) = success (fst (performUpdate md0 dryRun sv w0))"
proof -
  have "success (fst (performUpdate m dryRun sv v)) \<longleftrightarrow>
      (\<exists>resumeText result. getResumeText sv = Inr resumeText \<and> getResumeReplacements sv resumeText = Inr result \<and>
         (dryRun \<or>
          ((\<exists>n. fst (applyWordReplacements sv (replacements_res result) w0) = Inr n) \<and>
           (\<exists>revs. getRevisions sv = Inr revs \<and> revs \<noteq> []) \<and> fsFault sv = None)))" for m v
  proof (cases "getResumeText sv")
    case (Inl x)
    then show ?thesis
      by (simp add: performUpdate_text_fails)
  next
    case fetched: (Inr resumeText)
    show ?thesis
    proof (cases "getResumeReplacements sv resumeText")
      case (Inl x)
      with fetched show ?thesis
        by (simp add: performUpdate_suggest_fails)
    next
      case result: (Inr result)
      show ?thesis
      proof (cases dryRun)
        case True
        with fetched result show ?thesis
          by (simp add: performUpdate_dry)
      next
        case wet: False
        obtain a v1 where applied: "applyWordReplacements sv (replacements_res result) v = (a, v1)"
          by (cases "applyWordReplacements sv (replacements_res result) v")
        with applyWordReplacements_fst [of sv "replacements_res result" v w0]
        have a: "fst (applyWordReplacements sv (replacements_res result) w0) = a"
          by simp
        show ?thesis
        proof (cases a)
          case (Inl x)
          with applied have "fst (applyWordReplacements sv (replacements_res result) v) = Inl x"
            by simp
          from performUpdate_apply_fails [OF fetched result this, of m] wet fetched result a Inl
          show ?thesis
            by simp
        next
          case (Inr n)
          with applied have applied': "applyWordReplacements sv (replacements_res result) v = (Inr n, v1)"
            by simp
          show ?thesis
          proof (cases "getRevisions sv")
            case (Inl x)
            from performUpdate_listing_fails [OF fetched result applied' Inl, of m] wet fetched result a Inr Inl
            show ?thesis
              by simp
          next
            case revs: (Inr revs)
            show ?thesis
            proof (cases "revs = []")
              case True
              with revs have "getRevisions sv = Inr []"
                by simp
              from performUpdate_no_revision [OF fetched result applied' this, of m] wet fetched result a Inr revs True
              show ?thesis
                by simp
            next
              case False
              from performUpdate_appends [OF fetched result applied' revs False, of m] wet fetched result a Inr revs False
              show ?thesis
                by (simp split: option.splits fs_fault.splits write_progress.splits)
            qed
          qed
        qed
      qed
    qed
  qed
  then show ?thesis
    by simp
qed

lemma processUrl_url: "fst (fst (processUrl metadataOf dryRun url sv w)) = url"
  by (simp add: processUrl_def split: sum.splits prod.splits)

lemma processUrl_success_indep:
  "success (snd (fst (processUrl metadataOf dryRun url sv w))) =
   success (snd (fst (processUrl metadataOf dryRun url sv w0)))"
proof (cases "fetchJobDescription sv")
  case (Inl x)
  then show ?thesis
    by (simp add: processUrl_def)
next
  case (Inr jd)
  let ?md = "\<lparr>company_md = fst (metadataOf jd url), jobTitle_md = snd (metadataOf jd url), jobUrl_md = Some url\<rparr>"
  from Inr have "snd (fst (processUrl metadataOf dryRun url sv v)) = fst (performUpdate ?md dryRun sv v)" for v
    by (simp add: processUrl_def Let_def split: prod.splits)
  with performUpdate_success_indep [of ?md dryRun sv w ?md w0] show ?thesis
    by simp
qed

lemma batchLoop_Cons:
  "batchLoop metadataOf dryRun ((url, sv) # rest) w =
     (fst (processUrl metadataOf dryRun url sv w)
        # fst (batchLoop metadataOf dryRun rest (snd (processUrl metadataOf dryRun url sv w))),
      snd (batchLoop metadataOf dryRun rest (snd (processUrl metadataOf dryRun url sv w))))"
  by (simp split: prod.splits)

lemma batchLoop_length: "length (fst (batchLoop metadataOf dryRun urls w)) = length urls"
proof (induction urls arbitrary: w)
  case Nil
  show ?case by simp
next
  case (Cons item rest)
  obtain url sv where item: "item = (url, sv)"
    by (cases item)
  from Cons.IH show ?case
    unfolding item batchLoop_Cons by simp
qed

lemma batchLoop_urls: "map fst (fst (batchLoop metadataOf dryRun urls w)) = map fst urls"
proof (induction urls arbitrary: w)
  case Nil
  show ?case by simp
next
  case (Cons item rest)
  obtain url sv where item: "item = (url, sv)"
    by (cases item)
  from Cons.IH show ?case
    unfolding item batchLoop_Cons by (simp add: processUrl_url)
qed

lemma batchLoop_nth:
  "i < length urls \<Longrightarrow>
   fst (batchLoop metadataOf dryRun urls w) ! i =
     fst (processUrl metadataOf dryRun (fst (urls ! i)) (snd (urls ! i))
            (snd (batchLoop metadataOf dryRun (take i urls) w)))"
proof (induction urls arbitrary: w i)
  case Nil
  then show ?case by simp
next
  case (Cons item rest)
  obtain url sv where item: "item = (url, sv)"
    by (cases item)
  show ?case
  proof (cases i)
    case 0
    show ?thesis
      unfolding item 0 batchLoop_Cons by simp
  next
    case (Suc j)
    with Cons.prems have "j < length rest"
      by simp
    from Cons.IH [OF this] show ?thesis
      unfolding item Suc take_Suc_Cons batchLoop_Cons by simp
  qed
qed

section \<open>Retries of the generation service\<close>

text \<open>
  Claim C9. A call of \<^verbatim>\<open>getAlignmentSuggestions\<close> sends between one and three requests.
  Every attempt before the last one failed with a transient parse failure (recognised
  by the words JSON or parse in the message of an error without API response), so
  nothing else is ever retried; the caller gets the outcome of the last attempt: its
  answer, or a \<^verbatim>\<open>Groq API Error\<close> built from the status and message of an API error
  response, which ends the loop at once, or the last error itself, which after a third
  parse failure is that parse failure.
\<close>

theorem retry_only_on_parse_failure:
  assumes run: "getAlignmentSuggestions sv = (res, n)"
  shows "1 \<le> n \<and> n \<le> 3
    \<and> (\<forall>k. 1 \<le> k \<and> k < n \<longrightarrow> transientParseFailure (groqAttempt sv k))
    \<and> (n < 3 \<longrightarrow> \<not> transientParseFailure (groqAttempt sv n))
    \<and> res = propagated (groqAttempt sv n)
    \<and> (\<forall>error status dataMessage.
          groqAttempt sv n = Inl error \<and> axiosResponse error = Some (status, dataMessage) \<longrightarrow>
          res = Inl (Error (groqApiMessage status dataMessage (message error))))
    \<and> (\<forall>error. groqAttempt sv n = Inl error \<and> axiosResponse error = None \<longrightarrow> res = Inl error)"
proof -
  from run have loop: "attemptLoop (groqAttempt sv) 1 None = (res, n)"
    by (simp only: getAlignmentSuggestions_def)
  have "(1::nat) \<le> maxRetries"
    by (simp add: maxRetries_def)
  from attemptLoop_shape [OF this loop] show ?thesis
    by (auto simp: maxRetries_def propagated_def)
qed

text \<open>
  A parse failure followed by a quota error: two requests, and the caller gets the API
  error. Three parse failures: three requests, and the caller gets the last of them.
\<close>

lemma parse_then_quota_first: "transientParseFailure (groqAttempt parse_then_quota 1)"
  by (simp add: transientParseFailure_def parse_then_quota_def string_eval)

lemma parse_then_quota_second: "\<not> transientParseFailure (groqAttempt parse_then_quota 2)"
  by (simp add: transientParseFailure_def parse_then_quota_def)

lemma parse_then_quota_run:
  "getAlignmentSuggestions parse_then_quota = (Inl (Error (js ''Groq API Error 429: Rate limit reached'')), 2)"
  by (simp add: getAlignmentSuggestions_def attemptLoop.simps maxRetries_def parse_then_quota_def
      groqApiMessage_def string_eval)

lemma never_parses_transient: "transientParseFailure (groqAttempt never_parses k)"
  by (simp add: transientParseFailure_def never_parses_def string_eval)

lemma never_parses_run:
  "getAlignmentSuggestions never_parses = (Inl (Error (js ''Unexpected end of JSON input'')), 3)"
  by (simp add: getAlignmentSuggestions_def attemptLoop.simps maxRetries_def never_parses_def string_eval)

theorem retry_only_on_parse_failure_witness:
  "getAlignmentSuggestions parse_then_quota = (Inl (Error (js ''Groq API Error 429: Rate limit reached'')), 2)
   \<and> transientParseFailure (groqAttempt parse_then_quota 1)
   \<and> \<not> transientParseFailure (groqAttempt parse_then_quota 2)
   \<and> getAlignmentSuggestions never_parses = (Inl (Error (js ''Unexpected end of JSON input'')), 3)
   \<and> propagated (groqAttempt never_parses 3) = Inl (Error (js ''Unexpected end of JSON input''))"
proof -
  from retry_only_on_parse_failure [OF parse_then_quota_run]
  have "transientParseFailure (groqAttempt parse_then_quota 1)
      \<and> \<not> transientParseFailure (groqAttempt parse_then_quota 2)"
    by simp
  moreover from retry_only_on_parse_failure [OF never_parses_run]
  have "propagated (groqAttempt never_parses 3) = Inl (Error (js ''Unexpected end of JSON input''))"
    by simp
  ultimately show ?thesis
    using parse_then_quota_run never_parses_run by simp
qed

section \<open>Batch runs\<close>

text \<open>
  Claim C8. A batch run processes every URL in order, each from the state that the items
  before it left, and records one result per URL; whether an item succeeds depends on
  what the services answer for that item alone, whatever happened to the others. The
  run exits with status 1 exactly when no item succeeded, and with status 0 exactly when
  some item did.
\<close>

theorem batch_isolates_failures:
  assumes run: "handleBatch metadataOf dryRun urls w = ((status, results), w')"
  shows "map fst results = map fst urls
    \<and> (\<forall>i<length urls.
          results ! i = fst (processUrl metadataOf dryRun (fst (urls ! i)) (snd (urls ! i))
                               (snd (batchLoop metadataOf dryRun (take i urls) w)))
          \<and> (\<forall>w0. success (snd (results ! i)) =
                    success (snd (fst (processUrl metadataOf dryRun (fst (urls ! i)) (snd (urls ! i)) w0)))))
    \<and> (status = 1 \<longleftrightarrow> (\<forall>r\<in>set results. \<not> success (snd r)))
    \<and> (status = 0 \<longleftrightarrow> (\<exists>r\<in>set results. success (snd r)))"
proof (cases "urls = []")
  case True
  with run show ?thesis
    by (simp add: handleBatch_def)
next
  case False
  obtain rs w2 where loop: "batchLoop metadataOf dryRun urls w = (rs, w2)"
    by (cases "batchLoop metadataOf dryRun urls w")
  have counts: "length (filter (\<lambda>r. \<not> success (snd r)) rs) > 0 \<and> length (filter (\<lambda>r. success (snd r)) rs) = 0
      \<longleftrightarrow> (\<forall>r\<in>set rs. \<not> success (snd r))"
  proof -
    from batchLoop_length [of metadataOf dryRun urls w] loop False have "rs \<noteq> []"
      by auto
    then show ?thesis
      by (cases rs) (auto simp: filter_empty_conv)
  qed
  from run False loop counts have results: "results = rs"
    and status: "status = (if \<forall>r\<in>set rs. \<not> success (snd r) then 1 else 0)"
    by (auto simp: handleBatch_def Let_def split: if_splits)
  from batchLoop_urls [of metadataOf dryRun urls w] loop results have urls: "map fst results = map fst urls"
    by simp
  have items: "results ! i = fst (processUrl metadataOf dryRun (fst (urls ! i)) (snd (urls ! i))
                               (snd (batchLoop metadataOf dryRun (take i urls) w)))
      \<and> (\<forall>w0. success (snd (results ! i)) =
                success (snd (fst (processUrl metadataOf dryRun (fst (urls ! i)) (snd (urls ! i)) w0))))"
    if "i < length urls" for i
  proof -
    from batchLoop_nth [OF that, of metadataOf dryRun w] loop results
    have nth: "results ! i = fst (processUrl metadataOf dryRun (fst (urls ! i)) (snd (urls ! i))
                               (snd (batchLoop metadataOf dryRun (take i urls) w)))"
      by simp
    with processUrl_success_indep [of metadataOf dryRun "fst (urls ! i)" "snd (urls ! i)"
        "snd (batchLoop metadataOf dryRun (take i urls) w)"]
    show ?thesis
      by simp
  qed
  from status results have failed: "status = 1 \<longleftrightarrow> (\<forall>r\<in>set results. \<not> success (snd r))"
    by simp
  from status results have succeeded: "status = 0 \<longleftrightarrow> (\<exists>r\<in>set results. success (snd r))"
    by simp
  from urls items failed succeeded show ?thesis
    by blast
qed


text \<open>
  Three URLs, of which the first cannot be scraped, the second is processed and logged
  and the third fails after its apply call: all three are recorded and the status is 0.
  Without the second the status is 1.
\<close>

lemma scrape_fails_item:
  "processUrl no_metadata False url scrape_fails w = ((url, Failure (js ''Failed to scrape URL: timeout'')), w)"
  by (simp add: processUrl_def scrape_fails_def)

lemma listing_fails_item:
  "processUrl no_metadata False url listing_fails w =
     ((url, Failure (js ''socket hang up'')), w\<lparr>docRequests := docRequests w @ [ReplaceAllText [whole_sentence]]\<rparr>)"
proof -
  have fetched: "getResumeText listing_fails = Inr scenarioA_text"
    by (simp add: getResumeText_def listing_fails_def answering_def)
  have applied: "applyWordReplacements listing_fails [whole_sentence] w =
      (Inr 1, w\<lparr>docRequests := docRequests w @ [ReplaceAllText [whole_sentence]]\<rparr>)"
    by (simp add: applyWordReplacements_def listing_fails_def answering_def)
  have listing: "getRevisions listing_fails = Inl (Error (js ''socket hang up''))"
    by (simp add: getRevisions_def listing_fails_def)
  have posting: "fetchJobDescription listing_fails = Inr (js ''Building and scaling AI systems'')"
    by (simp add: listing_fails_def answering_def)
  show ?thesis
    by (simp add: processUrl_def posting performUpdate_def fetched listing_fails_replacements applied listing)
qed

lemma answering_item:
  "processUrl no_metadata False url answering w =
     ((url, Success (Some (js ''r4''))),
      w\<lparr>docRequests := docRequests w @ [ReplaceAllText [whole_sentence]],
        logFile := Holds (readVersionLog (logFile w) @
          [\<lparr>revisionId = js ''r4'', timestamp = js ''2025-01-01T00:00:00.000Z'',
            jobTitle = None, company = None, jobUrl = Some url,
            changes = [js ''Leads with scaling''], isRevert = False\<rparr>])\<rparr>)"
proof -
  have fetched: "getResumeText answering = Inr scenarioA_text"
    by (simp add: getResumeText_def answering_def)
  have applied: "applyWordReplacements answering [whole_sentence] w =
      (Inr 1, w\<lparr>docRequests := docRequests w @ [ReplaceAllText [whole_sentence]]\<rparr>)"
    by (simp add: applyWordReplacements_def answering_def)
  have listing: "getRevisions answering =
      Inr [revision ''r0'', revision ''r1'', revision ''r2'', revision ''r3'', revision ''r4'']"
    by (simp add: getRevisions_def answering_def)
  have fault: "fsFault answering = None"
    by (simp add: answering_def)
  have posting: "fetchJobDescription answering = Inr (js ''Building and scaling AI systems'')"
    by (simp add: answering_def)
  show ?thesis
    by (simp add: processUrl_def posting performUpdate_def fetched answering_replacements applied listing
        fault appendVersionLog_cases Let_def no_metadata_def revision_def)
qed

theorem batch_isolates_failures_witness:
  "handleBatch no_metadata False
     [(js ''https://a.example/job'', scrape_fails), (js ''https://b.example/job'', answering),
      (js ''https://c.example/job'', listing_fails)] three_entries =
     ((0, [(js ''https://a.example/job'', Failure (js ''Failed to scrape URL: timeout'')),
           (js ''https://b.example/job'', Success (Some (js ''r4''))),
           (js ''https://c.example/job'', Failure (js ''socket hang up''))]),
      \<lparr>logFile = Holds [logged ''r1'', logged ''r2'', logged ''r3'',
          \<lparr>revisionId = js ''r4'', timestamp = js ''2025-01-01T00:00:00.000Z'',
           jobTitle = None, company = None, jobUrl = Some (js ''https://b.example/job''),
           changes = [js ''Leads with scaling''], isRevert = False\<rparr>],
       docRequests = [ReplaceAllText [whole_sentence], ReplaceAllText [whole_sentence]]\<rparr>)
   \<and> handleBatch no_metadata False
       [(js ''https://a.example/job'', scrape_fails), (js ''https://c.example/job'', listing_fails)] three_entries =
     ((1, [(js ''https://a.example/job'', Failure (js ''Failed to scrape URL: timeout'')),
           (js ''https://c.example/job'', Failure (js ''socket hang up''))]),
      three_entries\<lparr>docRequests := [ReplaceAllText [whole_sentence]]\<rparr>)
   \<and> (\<exists>r \<in> set [(js ''https://a.example/job'', Failure (js ''Failed to scrape URL: timeout'')),
           (js ''https://b.example/job'', Success (Some (js ''r4''))),
           (js ''https://c.example/job'', Failure (js ''socket hang up''))]. success (snd r))"
proof -
  have mixed: "handleBatch no_metadata False
     [(js ''https://a.example/job'', scrape_fails), (js ''https://b.example/job'', answering),
      (js ''https://c.example/job'', listing_fails)] three_entries =
     ((0, [(js ''https://a.example/job'', Failure (js ''Failed to scrape URL: timeout'')),
           (js ''https://b.example/job'', Success (Some (js ''r4''))),
           (js ''https://c.example/job'', Failure (js ''socket hang up''))]),
      \<lparr>logFile = Holds [logged ''r1'', logged ''r2'', logged ''r3'',
          \<lparr>revisionId = js ''r4'', timestamp = js ''2025-01-01T00:00:00.000Z'',
           jobTitle = None, company = None, jobUrl = Some (js ''https://b.example/job''),
           changes = [js ''Leads with scaling''], isRevert = False\<rparr>],
       docRequests = [ReplaceAllText [whole_sentence], ReplaceAllText [whole_sentence]]\<rparr>)"
    by (simp add: handleBatch_def scrape_fails_item answering_item listing_fails_item
        three_entries_def readVersionLog_def)
  have failing: "handleBatch no_metadata False
       [(js ''https://a.example/job'', scrape_fails), (js ''https://c.example/job'', listing_fails)] three_entries =
     ((1, [(js ''https://a.example/job'', Failure (js ''Failed to scrape URL: timeout'')),
           (js ''https://c.example/job'', Failure (js ''socket hang up''))]),
      three_entries\<lparr>docRequests := [ReplaceAllText [whole_sentence]]\<rparr>)"
    by (simp add: handleBatch_def scrape_fails_item listing_fails_item three_entries_def)
  from batch_isolates_failures [OF mixed]
  have "\<exists>r \<in> set [(js ''https://a.example/job'', Failure (js ''Failed to scrape URL: timeout'')),
           (js ''https://b.example/job'', Success (Some (js ''r4''))),
           (js ''https://c.example/job'', Failure (js ''socket hang up''))]. success (snd r)"
    by blast
  with mixed failing show ?thesis
    by blast
qed

section \<open>The token that selects the entry\<close>

text \<open>
  Given a token, the lines that resolve it try the index first: a token whose
  \<^verbatim>\<open>parseInt\<close> is in range selects the entry at that index, and the \<open>revisionId\<close> is
  looked up only when \<^verbatim>\<open>parseInt\<close> gives \<^verbatim>\<open>NaN\<close> or a number out of range. But the
  token that the handlers resolve is the first argument not starting with \<^verbatim>\<open>--\<close>, and
  that is the command word.
\<close>

lemma selectorToken_command:
  "command \<noteq> [] \<Longrightarrow> \<not> js_startsWith command (js ''--'') \<Longrightarrow> selectorToken (command # rest) = Some command"
  by (simp add: selectorToken_def)

lemma selectEntry_index_first:
  "parseInt arg = Some index \<Longrightarrow> 0 \<le> index \<Longrightarrow> index < int (length localEntries) \<Longrightarrow>
   selectEntry arg localEntries = Some (localEntries ! nat index) \<and>
   selectIndex arg localEntries = Some (nat index)"
  by (simp add: selectEntry_def selectIndex_def)

lemma selectEntry_revisionId:
  "parseInt arg = None \<or> (\<exists>index. parseInt arg = Some index \<and> \<not> (0 \<le> index \<and> index < int (length localEntries))) \<Longrightarrow>
   selectEntry arg localEntries = find (\<lambda>e. revisionId e = arg) localEntries \<and>
   selectIndex arg localEntries = findIndex (\<lambda>e. revisionId e = arg) localEntries"
  by (auto simp: selectEntry_def selectIndex_def)

lemma parseInt_2abc123: "parseInt (js ''2abc123'') = Some 2"
  by (simp add: parseInt_def digitsValue_def string_eval)

lemma parseInt_command: "parseInt (js ''revert'') = None" "parseInt (js ''tag'') = None" "parseInt (js ''export'') = None"
  by (simp_all add: parseInt_def string_eval)

text \<open>
  Claim C10 says that the selector token of revert, tag and export is read as an index
  first, so that \<^verbatim>\<open>revert 2abc123\<close> on a log of three entries selects entry 2. Run on the
  arguments \<^verbatim>\<open>revert 2abc123\<close>, \<^verbatim>\<open>tag 1 --company Acme\<close> and \<^verbatim>\<open>export 0\<close>, the handlers take the
  words \<^verbatim>\<open>revert\<close>, \<^verbatim>\<open>tag\<close> and \<^verbatim>\<open>export\<close> as the token, find no entry with that
  \<open>revisionId\<close> and end with NotFoundError, although the resolving lines, given the
  tokens \<^verbatim>\<open>2abc123\<close>, \<^verbatim>\<open>1\<close> and \<^verbatim>\<open>0\<close>, select the entries 2, 1 and 0.
\<close>

theorem selector_token_is_command_word:
  "selectorToken (drop 2 [js ''node'', js ''src/main.ts'', js ''revert'', js ''2abc123'']) = Some (js ''revert'')
   \<and> handleRevert [js ''node'', js ''src/main.ts'', js ''revert'', js ''2abc123''] answering three_entries
        = (Inl NotFoundError, three_entries)
   \<and> handleTag [js ''node'', js ''src/main.ts'', js ''tag'', js ''1'', js ''--company'', js ''Acme''] None three_entries
        = (Inl NotFoundError, three_entries)
   \<and> handleExport_target [js ''node'', js ''src/main.ts'', js ''export'', js ''0''] three_entries
        = Inl NotFoundError
   \<and> selectEntry (js ''2abc123'') (readVersionLog (logFile three_entries)) = Some (logged ''r3'')
   \<and> selectIndex (js ''1'') (readVersionLog (logFile three_entries)) = Some 1
   \<and> selectEntry (js ''0'') (readVersionLog (logFile three_entries)) = Some (logged ''r1'')"
proof -
  have tokens: "selectorToken [js ''revert'', js ''2abc123''] = Some (js ''revert'')"
      "selectorToken [js ''tag'', js ''1'', js ''--company'', js ''Acme''] = Some (js ''tag'')"
      "selectorToken [js ''export'', js ''0''] = Some (js ''export'')"
    by (simp_all add: selectorToken_def string_eval)
  have absent: "find (\<lambda>e. revisionId e = js ''revert'') [logged ''r1'', logged ''r2'', logged ''r3''] = None"
      "findIndex (\<lambda>e. revisionId e = js ''tag'') [logged ''r1'', logged ''r2'', logged ''r3''] = None"
      "find (\<lambda>e. revisionId e = js ''export'') [logged ''r1'', logged ''r2'', logged ''r3''] = None"
    by (simp_all add: logged_def js_def)
  have unknown: "selectEntry (js ''revert'') [logged ''r1'', logged ''r2'', logged ''r3''] = None"
      "selectIndex (js ''tag'') [logged ''r1'', logged ''r2'', logged ''r3''] = None"
      "selectEntry (js ''export'') [logged ''r1'', logged ''r2'', logged ''r3''] = None"
    by (simp_all only: selectEntry_def selectIndex_def parseInt_command absent option.case)
  have flags: "flagValue [js ''tag'', js ''1'', js ''--company'', js ''Acme''] (js ''--company'') = Some (js ''Acme'')"
      "flagValue [js ''tag'', js ''1'', js ''--company'', js ''Acme''] (js ''--job-title'') = None"
      "flagValue [js ''tag'', js ''1'', js ''--company'', js ''Acme''] (js ''--url'') = None"
    by (simp_all add: flagValue_def js_def)
  have log: "readVersionLog (logFile three_entries) = [logged ''r1'', logged ''r2'', logged ''r3'']"
    by (simp add: three_entries_def readVersionLog_def)
  have token: "selectorToken (drop 2 [js ''node'', js ''src/main.ts'', js ''revert'', js ''2abc123'']) = Some (js ''revert'')"
    by (simp add: tokens)
  have revert: "handleRevert [js ''node'', js ''src/main.ts'', js ''revert'', js ''2abc123''] answering three_entries
        = (Inl NotFoundError, three_entries)"
    by (simp add: handleRevert_def tokens revertTo_def log unknown)
  have tag: "handleTag [js ''node'', js ''src/main.ts'', js ''tag'', js ''1'', js ''--company'', js ''Acme''] None three_entries
        = (Inl NotFoundError, three_entries)"
    by (simp add: handleTag_def tokens flags tagEntry_def log unknown)
  have exporting: "handleExport_target [js ''node'', js ''src/main.ts'', js ''export'', js ''0''] three_entries
        = Inl NotFoundError"
    by (simp add: handleExport_target_def tokens log unknown)
  have lines: "selectEntry (js ''2abc123'') (readVersionLog (logFile three_entries)) = Some (logged ''r3'')"
      "selectIndex (js ''1'') (readVersionLog (logFile three_entries)) = Some 1"
      "selectEntry (js ''0'') (readVersionLog (logFile three_entries)) = Some (logged ''r1'')"
    by (simp_all add: log selectEntry_def selectIndex_def parseInt_2abc123 parseInt_0 parseInt_1)
  from token revert tag exporting lines show ?thesis
    by simp
qed


end
